theory Spec2Isabelle
  imports Complex_Main "HOL-Library.Word"
begin

section \<open>Numbers\<close>

text \<open>
  The component computes with the \<^verbatim>\<open>number\<close> type. Its values are modelled as the
  finite reals together with the three special values an arithmetic operation can yield:
  the two infinities and NaN. A division by zero therefore has the value the program
  gets (an infinity or NaN), not a default of the logic. Finite results of the
  operations of this section are exact, as in the specification's data model, which
  takes coordinates as real-valued; the rounding to binary64 and the overflow to an
  infinity are added in a section of their own below. The sign of zero is not kept (a
  zero divisor counts as positive zero).
\<close>

datatype number = JNum real | PosInfinity | NegInfinity | NaN

fun isFinite :: "number \<Rightarrow> bool" where
  "isFinite (JNum _) = True"
| "isFinite _ = False"

text \<open>The sign of a value that is not NaN, and the infinity of a given sign
  (NaN for sign zero, as in \<^verbatim>\<open>0 * Infinity\<close> and \<^verbatim>\<open>0 / 0\<close>).\<close>

fun sign_of :: "number \<Rightarrow> real" where
  "sign_of (JNum a) = sgn a"
| "sign_of PosInfinity = 1"
| "sign_of NegInfinity = - 1"
| "sign_of NaN = 0"

definition infinity_of :: "real \<Rightarrow> number" where
  "infinity_of s = (if 0 < s then PosInfinity else if s < 0 then NegInfinity else NaN)"

fun js_sub :: "number \<Rightarrow> number \<Rightarrow> number" where
  "js_sub (JNum a) (JNum b) = JNum (a - b)"
| "js_sub NaN _ = NaN"
| "js_sub _ NaN = NaN"
| "js_sub PosInfinity PosInfinity = NaN"
| "js_sub NegInfinity NegInfinity = NaN"
| "js_sub PosInfinity _ = PosInfinity"
| "js_sub NegInfinity _ = NegInfinity"
| "js_sub (JNum _) PosInfinity = NegInfinity"
| "js_sub (JNum _) NegInfinity = PosInfinity"

fun js_mul :: "number \<Rightarrow> number \<Rightarrow> number" where
  "js_mul (JNum a) (JNum b) = JNum (a * b)"
| "js_mul NaN _ = NaN"
| "js_mul _ NaN = NaN"
| "js_mul a b = infinity_of (sign_of a * sign_of b)"

fun js_div :: "number \<Rightarrow> number \<Rightarrow> number" where
  "js_div (JNum a) (JNum b) = (if b = 0 then infinity_of (sgn a) else JNum (a / b))"
| "js_div NaN _ = NaN"
| "js_div _ NaN = NaN"
| "js_div (JNum _) _ = JNum 0"
| "js_div a (JNum b) = infinity_of (sign_of a * (if b < 0 then - 1 else 1))"
| "js_div _ _ = NaN"

text \<open>The comparison \<^verbatim>\<open>a > b\<close>: false as soon as one side is NaN.\<close>

fun js_gt :: "number \<Rightarrow> number \<Rightarrow> bool" where
  "js_gt (JNum a) (JNum b) = (b < a)"
| "js_gt NaN _ = False"
| "js_gt _ NaN = False"
| "js_gt PosInfinity b = (b \<noteq> PosInfinity)"
| "js_gt a NegInfinity = (a \<noteq> NegInfinity)"
| "js_gt _ _ = False"

text \<open>\<^verbatim>\<open>Math.min\<close> of two arguments and \<^verbatim>\<open>Math.abs\<close>.\<close>

definition Math_min :: "number \<Rightarrow> number \<Rightarrow> number" where
  "Math_min a b = (if a = NaN \<or> b = NaN then NaN else if js_gt a b then b else a)"

fun Math_abs :: "number \<Rightarrow> number" where
  "Math_abs (JNum a) = JNum \<bar>a\<bar>"
| "Math_abs NaN = NaN"
| "Math_abs _ = PosInfinity"

section \<open>Geometry primitives\<close>

text \<open>\<^verbatim>\<open>type Point = { x: number; y: number }\<close>; the fields are named \<open>px\<close> and \<open>py\<close>.\<close>

record point =
  px :: number
  py :: number

text \<open>
  The first half of \<^verbatim>\<open>transformCoordinates\<close> (the aspect ratios, the scaled size and
  the centring offsets) does not depend on the point; it is kept as a function of its own
  so that the intermediate values can be named in theorems.
\<close>

record letterbox =
  scaledWidth :: number
  scaledHeight :: number
  offsetX :: number
  offsetY :: number

definition fit_letterbox :: "number \<Rightarrow> number \<Rightarrow> number \<Rightarrow> number \<Rightarrow> letterbox" where
  "fit_letterbox overlayWidth overlayHeight pdfWidth pdfHeight =
     (let overlayAspectRatio = js_div overlayWidth overlayHeight;
          pdfAspectRatio = js_div pdfWidth pdfHeight;
          sw = (if js_gt overlayAspectRatio pdfAspectRatio
                then js_mul overlayHeight pdfAspectRatio else overlayWidth);
          sh = (if js_gt overlayAspectRatio pdfAspectRatio
                then overlayHeight else js_div overlayWidth pdfAspectRatio)
      in \<lparr> scaledWidth = sw, scaledHeight = sh,
           offsetX = js_div (js_sub overlayWidth sw) (JNum 2),
           offsetY = js_div (js_sub overlayHeight sh) (JNum 2) \<rparr>)"

text \<open>The optional last parameter \<^verbatim>\<open>scale: number = 1\<close> is an option: \<open>None\<close> is
  the call that leaves it out.\<close>

definition transformCoordinates ::
  "point \<Rightarrow> number \<Rightarrow> number \<Rightarrow> number \<Rightarrow> number \<Rightarrow> number option \<Rightarrow> point" where
  "transformCoordinates p overlayWidth overlayHeight pdfWidth pdfHeight scale_arg =
     (let scale = (case scale_arg of None \<Rightarrow> JNum 1 | Some s \<Rightarrow> s);
          box = fit_letterbox overlayWidth overlayHeight pdfWidth pdfHeight;
          adjustedX = js_sub (px p) (offsetX box);
          adjustedY = js_sub (py p) (offsetY box)
      in \<lparr> px = js_mul (js_mul (js_div adjustedX (scaledWidth box)) pdfWidth) scale,
           py = js_sub pdfHeight
                  (js_mul (js_mul (js_div adjustedY (scaledHeight box)) pdfHeight) scale) \<rparr>)"


section \<open>Binary64 rounding\<close>

text \<open>
  The program's numbers are IEEE binary64 values, and each arithmetic operation returns
  the exact result rounded to the nearest such value, ties to the even significand. The
  functions above leave the rounding out; the functions of this section put it in, for
  the properties that turn on it.

  \<open>binade a\<close> is the power of two at or below \<open>a > 0\<close>, between \<open>2^-1022\<close> (below it
  the values are subnormal and share one spacing) and \<open>2^1024\<close>; the search halves or
  doubles at most as often as binary64 has exponents. The spacing of the binary64 values
  in that binade is \<open>binade a / 2^52\<close>. A result that rounds to \<open>2^1024\<close> or more is an
  infinity. As before the sign of zero is not kept.
\<close>

primrec binade_down :: "nat \<Rightarrow> real \<Rightarrow> real" where
  "binade_down 0 x = 1"
| "binade_down (Suc n) x = (if 2 \<le> x then 2 * binade_down n (x / 2) else 1)"

primrec binade_up :: "nat \<Rightarrow> real \<Rightarrow> real" where
  "binade_up 0 x = 1"
| "binade_up (Suc n) x = (if x < 1 then binade_up n (2 * x) / 2 else 1)"











section \<open>The letterbox algorithm as the specification words it\<close>

text \<open>
  The specification's Coordinate Projector, step by step and over the reals: the aspect
  ratios and the rendered size (steps 1 and 2), the centring offsets (step 3), the
  adjusted point and the projection with the vertical flip (steps 4 and 5). These three
  definitions follow the specification's text and are only compared with the code.
\<close>

definition spec_rendered_size :: "real \<Rightarrow> real \<Rightarrow> real \<Rightarrow> real \<Rightarrow> real \<times> real" where
  "spec_rendered_size viewportWidth viewportHeight documentWidth documentHeight =
     (let viewportAspect = viewportWidth / viewportHeight;
          documentAspect = documentWidth / documentHeight
      in if viewportAspect > documentAspect
         then (viewportHeight * documentAspect, viewportHeight)
         else (viewportWidth, viewportWidth / documentAspect))"

definition spec_offsets :: "real \<Rightarrow> real \<Rightarrow> real \<Rightarrow> real \<Rightarrow> real \<times> real" where
  "spec_offsets viewportWidth viewportHeight documentWidth documentHeight =
     (let (renderedWidth, renderedHeight) =
            spec_rendered_size viewportWidth viewportHeight documentWidth documentHeight
      in ((viewportWidth - renderedWidth) / 2, (viewportHeight - renderedHeight) / 2))"

definition spec_project ::
  "real \<times> real \<Rightarrow> real \<Rightarrow> real \<Rightarrow> real \<Rightarrow> real \<Rightarrow> real \<Rightarrow> real \<times> real" where
  "spec_project xy viewportWidth viewportHeight documentWidth documentHeight scale =
     (let (renderedWidth, renderedHeight) =
            spec_rendered_size viewportWidth viewportHeight documentWidth documentHeight;
          (offX, offY) =
            spec_offsets viewportWidth viewportHeight documentWidth documentHeight;
          adjustedX = fst xy - offX;
          adjustedY = snd xy - offY
      in ((adjustedX / renderedWidth) * documentWidth * scale,
          documentHeight - (adjustedY / renderedHeight) * documentHeight * scale))"

section \<open>Colours\<close>

text \<open>
  A string is a list of characters; a character stands for one code unit below 256,
  which covers every colour string the colour input can produce.

  \<^verbatim>\<open>parseInt(s, 16)\<close>: leading white space is dropped, then an optional sign, then an
  optional \<^verbatim>\<open>0x\<close> or \<^verbatim>\<open>0X\<close>; the longest run of hexadecimal digits that follows is
  the number, and an empty run gives NaN.
\<close>

definition isWhiteSpace :: "char \<Rightarrow> bool" where
  "isWhiteSpace c = ((of_char c :: nat) \<in> {9, 10, 11, 12, 13, 32, 160})"

definition digitValue :: "char \<Rightarrow> nat option" where
  "digitValue c =
     (let n = (of_char c :: nat)
      in if 48 \<le> n \<and> n \<le> 57 then Some (n - 48)
         else if 97 \<le> n \<and> n \<le> 102 then Some (n - 87)
         else if 65 \<le> n \<and> n \<le> 70 then Some (n - 55)
         else None)"

definition isHexDigit :: "char \<Rightarrow> bool" where
  "isHexDigit c = (digitValue c \<noteq> None)"

definition radix16_value :: "string \<Rightarrow> nat" where
  "radix16_value z = foldl (\<lambda>acc c. 16 * acc + (case digitValue c of Some d \<Rightarrow> d | None \<Rightarrow> 0)) 0 z"

definition parseInt16 :: "string \<Rightarrow> number" where
  "parseInt16 inputString =
     (let s = dropWhile isWhiteSpace inputString;
          sign = (case s of [] \<Rightarrow> 1 | c # _ \<Rightarrow> if c = CHR ''-'' then - 1 else (1::real));
          s1 = (case s of [] \<Rightarrow> s
                | c # rest \<Rightarrow> if c = CHR ''+'' \<or> c = CHR ''-'' then rest else s);
          s2 = (case s1 of
                  c # d # rest \<Rightarrow>
                    if c = CHR ''0'' \<and> (d = CHR ''x'' \<or> d = CHR ''X'') then rest else s1
                | _ \<Rightarrow> s1);
          z = takeWhile isHexDigit s2
      in if z = [] then NaN else JNum (sign * real (radix16_value z)))"

text \<open>\<^verbatim>\<open>str.substring(a, b)\<close>: both indices are clamped to the length and swapped when
  out of order.\<close>

definition substring :: "string \<Rightarrow> nat \<Rightarrow> nat \<Rightarrow> string" where
  "substring s a b =
     (let a' = min a (length s); b' = min b (length s);
          lo = min a' b'; hi = max a' b'
      in take (hi - lo) (drop lo s))"

text \<open>The object \<^verbatim>\<open>{ r, g, b }\<close> that \<^verbatim>\<open>hexToRgb\<close> returns.\<close>

record channels =
  ch_r :: number
  ch_g :: number
  ch_b :: number

text \<open>\<^verbatim>\<open>hex.replace('#', '')\<close> removes the first \<^verbatim>\<open>#\<close> only, wherever it stands.\<close>

definition hexToRgb :: "string \<Rightarrow> channels" where
  "hexToRgb hex0 =
     (let hex = remove1 CHR ''#'' hex0
      in \<lparr> ch_r = js_div (parseInt16 (substring hex 0 2)) (JNum 255),
           ch_g = js_div (parseInt16 (substring hex 2 4)) (JNum 255),
           ch_b = js_div (parseInt16 (substring hex 4 6)) (JNum 255) \<rparr>)"

section \<open>Annotation model\<close>

datatype annotation =
    HighlightAnnotation (annotation_page: number) (highlight_start: point)
      (highlight_end: point) (annotation_color: string)
  | DrawingAnnotation (annotation_page: number) (drawing_points: "point list")
      (annotation_color: string) (drawing_width: number)
  | TextAnnotation (annotation_page: number) (text_position: point)
      (text_content: string) (annotation_color: string)

section \<open>Export engine\<close>

text \<open>
  The PDF library is outside the component, and what it does with a call is left open:
  it is a parameter. \<^verbatim>\<open>rgb\<close> returns a colour or throws; each drawing method either
  throws (the library checks its arguments, and \<^verbatim>\<open>drawText\<close> also whether the font can
  encode the text) or draws. A page is its size and the list of drawing calls that were
  carried out on it, in order.
\<close>

datatype js_error =
  FetchFailure | ParseFailure | SerializeFailure | TypeError | ColorRangeError

record 'c rectangle_options =
  rectangle_x :: number
  rectangle_y :: number
  rectangle_width :: number
  rectangle_height :: number
  rectangle_color :: 'c
  rectangle_opacity :: number

record 'c text_options =
  text_x :: number
  text_y :: number
  text_size :: number
  text_color :: 'c

record 'c line_options =
  line_start :: point
  line_end :: point
  line_thickness :: number
  line_color :: 'c

datatype 'c draw_call =
    DrawRectangle "'c rectangle_options"
  | DrawText string "'c text_options"
  | DrawLine "'c line_options"

record 'c pdf_page =
  page_width :: number
  page_height :: number
  page_calls :: "'c draw_call list"

type_synonym 'c rgb_function = "number \<Rightarrow> number \<Rightarrow> number \<Rightarrow> js_error + 'c"

text \<open>For each drawing method, the error it throws on the given arguments, if any.\<close>

record 'c pdf_library =
  lib_rgb :: "'c rgb_function"
  lib_drawRectangle :: "'c rectangle_options \<Rightarrow> js_error option"
  lib_drawText :: "string \<Rightarrow> 'c text_options \<Rightarrow> js_error option"
  lib_drawLine :: "'c line_options \<Rightarrow> js_error option"

text \<open>
  The inner loop of the \<^verbatim>\<open>'draw'\<close> case: every point is projected; from the second
  point on a line is drawn from the previous projected point. \<^verbatim>\<open>rgb\<close> is called once
  per line, inside the \<^verbatim>\<open>if (lastPoint)\<close>, while the options of \<^verbatim>\<open>drawLine\<close> are put
  together; an exception from either ends the loop.
\<close>

fun draw_points ::
  "'c pdf_library \<Rightarrow> number \<Rightarrow> number \<Rightarrow> number \<Rightarrow> number \<Rightarrow> number \<Rightarrow>
   channels \<Rightarrow> number \<Rightarrow> point list \<Rightarrow> point option \<Rightarrow> 'c draw_call list \<Rightarrow>
   js_error + 'c draw_call list" where
  "draw_points lib overlayWidth overlayHeight pdfWidth pdfHeight scale color w [] lastPoint calls =
     Inr calls"
| "draw_points lib overlayWidth overlayHeight pdfWidth pdfHeight scale color w (p # rest) lastPoint calls =
     (let transformedPoint =
            transformCoordinates p overlayWidth overlayHeight pdfWidth pdfHeight (Some scale)
      in case lastPoint of
           None \<Rightarrow>
             draw_points lib overlayWidth overlayHeight pdfWidth pdfHeight scale color w rest
               (Some transformedPoint) calls
         | Some lp \<Rightarrow>
             (case lib_rgb lib (ch_r color) (ch_g color) (ch_b color) of
                Inl e \<Rightarrow> Inl e
              | Inr c \<Rightarrow>
                  (let line = \<lparr> line_start = lp, line_end = transformedPoint,
                                line_thickness = js_div (js_mul w pdfWidth) overlayWidth,
                                line_color = c \<rparr>
                   in case lib_drawLine lib line of
                        Some e \<Rightarrow> Inl e
                      | None \<Rightarrow>
                          draw_points lib overlayWidth overlayHeight pdfWidth pdfHeight scale
                            color w rest (Some transformedPoint) (calls @ [DrawLine line]))))"

text \<open>The body of the \<^verbatim>\<open>switch (annotation.type)\<close>: one annotation drawn on the page.\<close>

fun export_annotation ::
  "'c pdf_library \<Rightarrow> number \<Rightarrow> number \<Rightarrow> number \<Rightarrow> number \<Rightarrow> number \<Rightarrow>
   annotation \<Rightarrow> 'c draw_call list \<Rightarrow> js_error + 'c draw_call list" where
  "export_annotation lib overlayWidth overlayHeight pdfWidth pdfHeight scale
     (HighlightAnnotation pg start_pt end_pt col) calls =
     (let color = hexToRgb col;
          s = transformCoordinates start_pt overlayWidth overlayHeight pdfWidth pdfHeight (Some scale);
          e = transformCoordinates end_pt overlayWidth overlayHeight pdfWidth pdfHeight (Some scale)
      in case lib_rgb lib (ch_r color) (ch_g color) (ch_b color) of
           Inl err \<Rightarrow> Inl err
         | Inr c \<Rightarrow>
             (let rectangle = \<lparr>
                    rectangle_x = Math_min (px s) (px e),
                    rectangle_y = Math_min (py s) (py e),
                    rectangle_width = Math_abs (js_sub (px e) (px s)),
                    rectangle_height = Math_abs (js_sub (py e) (py s)),
                    rectangle_color = c,
                    rectangle_opacity = JNum (35 / 100) \<rparr>
              in case lib_drawRectangle lib rectangle of
                   Some err \<Rightarrow> Inl err
                 | None \<Rightarrow> Inr (calls @ [DrawRectangle rectangle])))"
| "export_annotation lib overlayWidth overlayHeight pdfWidth pdfHeight scale
     (TextAnnotation pg pos txt col) calls =
     (let color = hexToRgb col;
          position = transformCoordinates pos overlayWidth overlayHeight pdfWidth pdfHeight (Some scale);
          textSize = js_div (js_mul (JNum 12) pdfWidth) overlayWidth
      in case lib_rgb lib (ch_r color) (ch_g color) (ch_b color) of
           Inl err \<Rightarrow> Inl err
         | Inr c \<Rightarrow>
             (let options = \<lparr> text_x = px position, text_y = py position,
                               text_size = textSize, text_color = c \<rparr>
              in case lib_drawText lib txt options of
                   Some err \<Rightarrow> Inl err
                 | None \<Rightarrow> Inr (calls @ [DrawText txt options])))"
| "export_annotation lib overlayWidth overlayHeight pdfWidth pdfHeight scale
     (DrawingAnnotation pg pts col w) calls =
     draw_points lib overlayWidth overlayHeight pdfWidth pdfHeight scale (hexToRgb col) w
       pts None calls"

text \<open>The loop \<^verbatim>\<open>for (const annotation of annotations)\<close>; an exception ends it.\<close>

fun export_annotations ::
  "'c pdf_library \<Rightarrow> number \<Rightarrow> number \<Rightarrow> number \<Rightarrow> number \<Rightarrow> number \<Rightarrow>
   annotation list \<Rightarrow> 'c draw_call list \<Rightarrow> js_error + 'c draw_call list" where
  "export_annotations lib overlayWidth overlayHeight pdfWidth pdfHeight scale [] calls = Inr calls"
| "export_annotations lib overlayWidth overlayHeight pdfWidth pdfHeight scale (a # rest) calls =
     (case export_annotation lib overlayWidth overlayHeight pdfWidth pdfHeight scale a calls of
        Inl e \<Rightarrow> Inl e
      | Inr calls' \<Rightarrow>
          export_annotations lib overlayWidth overlayHeight pdfWidth pdfHeight scale rest calls')"

text \<open>
  What \<^verbatim>\<open>downloadAnnotatedPDF\<close> asks of its surroundings: the overlay element (absent
  while the ref is null) with its client size, the fetch of the source bytes, the
  library's load and save, and the library's colour and drawing functions. Each of the
  asynchronous steps either yields a value or rejects with an error. A loaded document
  is the list of its pages.
\<close>

type_synonym bytes = "8 word list"

record 'c collaborators =
  overlay_client_size :: "(number \<times> number) option"
  fetch_arrayBuffer :: "string \<Rightarrow> js_error + bytes"
  PDFDocument_load :: "bytes \<Rightarrow> js_error + 'c pdf_page list"
  PDFDocument_save :: "'c pdf_page list \<Rightarrow> js_error + bytes"
  pdf_lib :: "'c pdf_library"

text \<open>What the export leaves behind: the file handed to the browser for download, if
  any, and the error written to the console, if any.\<close>

record export_effects =
  downloaded :: "(string \<times> bytes) option"
  console_error :: "js_error option"

text \<open>
  The \<^verbatim>\<open>try\<close> block, in two parts. The first fetches the source bytes, loads the
  document, takes its first page and draws every annotation on it;
  \<^verbatim>\<open>pdfDoc.getPages()[0]\<close> is \<^verbatim>\<open>undefined\<close> for a document without pages, and
  \<^verbatim>\<open>page.getSize()\<close> then throws a TypeError. \<open>Inl\<close> is an exception thrown on the way.
\<close>

definition annotated_document ::
  "'c collaborators \<Rightarrow> number \<Rightarrow> number \<Rightarrow> string \<Rightarrow> annotation list \<Rightarrow>
   js_error + 'c pdf_page list" where
  "annotated_document env overlayWidth overlayHeight pdfUrl annots =
     (case fetch_arrayBuffer env pdfUrl of
        Inl e \<Rightarrow> Inl e
      | Inr existingPdfBytes \<Rightarrow>
          (case PDFDocument_load env existingPdfBytes of
             Inl e \<Rightarrow> Inl e
           | Inr pdfDoc \<Rightarrow>
               (case pdfDoc of
                  [] \<Rightarrow> Inl TypeError
                | page # others \<Rightarrow>
                    (let pdfWidth = page_width page;
                         pdfHeight = page_height page;
                         scale = Math_min (js_div overlayWidth pdfWidth)
                                          (js_div overlayHeight pdfHeight)
                     in case export_annotations (pdf_lib env) overlayWidth overlayHeight
                               pdfWidth pdfHeight scale annots (page_calls page) of
                          Inl e \<Rightarrow> Inl e
                        | Inr calls \<Rightarrow> Inr (page \<lparr> page_calls := calls \<rparr> # others)))))"

text \<open>
  The whole block: \<open>Inr None\<close> is the early \<^verbatim>\<open>return\<close> when the overlay is absent;
  otherwise the annotated document is saved and the bytes are handed to the browser as
  the file \<^verbatim>\<open>annotated-document.pdf\<close>.
\<close>

definition download_try ::
  "'c collaborators \<Rightarrow> string \<Rightarrow> annotation list \<Rightarrow> js_error + (string \<times> bytes) option" where
  "download_try env pdfUrl annots =
     (case overlay_client_size env of
        None \<Rightarrow> Inr None
      | Some (overlayWidth, overlayHeight) \<Rightarrow>
          (case annotated_document env overlayWidth overlayHeight pdfUrl annots of
             Inl e \<Rightarrow> Inl e
           | Inr pdfDoc \<Rightarrow>
               (case PDFDocument_save env pdfDoc of
                  Inl e \<Rightarrow> Inl e
                | Inr pdfBytes \<Rightarrow> Inr (Some (''annotated-document.pdf'', pdfBytes)))))"

section \<open>Capture engine\<close>

datatype tool = ToolSelect | ToolDraw | ToolHighlight | ToolText

record highlight_info =
  info_start :: point
  info_current :: point

record highlight_preview =
  preview_start :: point
  preview_end :: point

record overlay_dimensions =
  dim_width :: number
  dim_height :: number
  dim_top :: number
  dim_left :: number

text \<open>The component's state: one field for each \<^verbatim>\<open>useState\<close>, in the order of the source.\<close>

record viewer_state =
  currentDrawing :: "point list"
  currentHighlight :: "highlight_preview option"
  isDarkTheme :: bool
  currentTool :: tool
  annotations :: "annotation list"
  isDrawing :: bool
  currentPath :: "point list"
  highlightInfo :: "highlight_info option"
  annotationColor :: string
  isModalOpen :: bool
  modalText :: string
  modalPosition :: "point option"
  overlayDimensions :: overlay_dimensions

definition initial_state :: viewer_state where
  "initial_state =
     \<lparr> currentDrawing = [], currentHighlight = None, isDarkTheme = False,
       currentTool = ToolHighlight, annotations = [], isDrawing = False,
       currentPath = [], highlightInfo = None, annotationColor = ''#FFFF00'',
       isModalOpen = False, modalText = [], modalPosition = None,
       overlayDimensions =
         \<lparr> dim_width = JNum 0, dim_height = JNum 0, dim_top = JNum 0, dim_left = JNum 0 \<rparr> \<rparr>"

text \<open>A mouse event carries the client coordinates; the bounding rectangle of the
  overlay, read at the time of the event, is absent while the ref is null.\<close>

record mouse_event =
  clientX :: number
  clientY :: number

record dom_rect =
  rect_width :: number
  rect_height :: number
  rect_top :: number
  rect_left :: number

definition event_point :: "mouse_event \<Rightarrow> dom_rect \<Rightarrow> point" where
  "event_point e rect =
     \<lparr> px = js_sub (clientX e) (rect_left rect), py = js_sub (clientY e) (rect_top rect) \<rparr>"

definition handleMouseDown :: "mouse_event \<Rightarrow> dom_rect option \<Rightarrow> viewer_state \<Rightarrow> viewer_state" where
  "handleMouseDown e rect_opt st =
     (case rect_opt of
        None \<Rightarrow> st
      | Some rect \<Rightarrow>
          (let p = event_point e rect
           in case currentTool st of
                ToolDraw \<Rightarrow>
                  st \<lparr> isDrawing := True, currentPath := [p], currentDrawing := [p] \<rparr>
              | ToolHighlight \<Rightarrow>
                  st \<lparr> highlightInfo := Some \<lparr> info_start = p, info_current = p \<rparr>,
                       currentHighlight := Some \<lparr> preview_start = p, preview_end = p \<rparr> \<rparr>
              | ToolText \<Rightarrow> st \<lparr> modalPosition := Some p, isModalOpen := True \<rparr>
              | ToolSelect \<Rightarrow> st))"

definition handleMouseMove :: "mouse_event \<Rightarrow> dom_rect option \<Rightarrow> viewer_state \<Rightarrow> viewer_state" where
  "handleMouseMove e rect_opt st =
     (case rect_opt of
        None \<Rightarrow> st
      | Some rect \<Rightarrow>
          (let p = event_point e rect;
               st1 = (if currentTool st = ToolDraw \<and> isDrawing st
                      then st \<lparr> currentDrawing := currentDrawing st @ [p],
                                currentPath := currentPath st @ [p] \<rparr>
                      else st)
           in if currentTool st = ToolHighlight \<and> highlightInfo st \<noteq> None
              then st1 \<lparr> currentHighlight :=
                           map_option (\<lambda>prev. prev \<lparr> preview_end := p \<rparr>) (currentHighlight st1),
                         highlightInfo :=
                           map_option (\<lambda>prev. prev \<lparr> info_current := p \<rparr>) (highlightInfo st1) \<rparr>
              else st1))"

text \<open>
  \<^verbatim>\<open>handleMouseUp\<close> reads the tool, the path, the highlight and the colour of the
  render it belongs to (\<open>st\<close>), and appends to the annotations through an updater.
\<close>

definition handleMouseUp :: "viewer_state \<Rightarrow> viewer_state" where
  "handleMouseUp st =
     (let st1 = (if currentTool st = ToolDraw \<and> isDrawing st
                 then st \<lparr> annotations := annotations st @
                              [DrawingAnnotation (JNum 1) (currentPath st) (annotationColor st) (JNum 2)],
                           isDrawing := False, currentPath := [] \<rparr>
                 else st)
      in case highlightInfo st of
           Some info \<Rightarrow>
             if currentTool st = ToolHighlight
             then st1 \<lparr> annotations := annotations st1 @
                          [HighlightAnnotation (JNum 1) (info_start info) (info_current info)
                             (annotationColor st)],
                        highlightInfo := None \<rparr>
             else st1
         | None \<Rightarrow> st1)"

definition handleModalSubmit :: "viewer_state \<Rightarrow> viewer_state" where
  "handleModalSubmit st =
     (case modalPosition st of
        Some pos \<Rightarrow>
          if modalText st \<noteq> []
          then st \<lparr> annotations := annotations st @
                      [TextAnnotation (JNum 1) pos (modalText st) (annotationColor st)],
                    isModalOpen := False, modalText := [], modalPosition := None \<rparr>
          else st
      | None \<Rightarrow> st)"

text \<open>\<^verbatim>\<open>updateOverlayDimensions\<close>, run when the frame loads and when the window is
  resized, with the bounding rectangle of the frame if it is mounted.\<close>

definition updateOverlayDimensions :: "dom_rect option \<Rightarrow> viewer_state \<Rightarrow> viewer_state" where
  "updateOverlayDimensions rect_opt st =
     (case rect_opt of
        None \<Rightarrow> st
      | Some rect \<Rightarrow>
          st \<lparr> overlayDimensions :=
                 \<lparr> dim_width = rect_width rect, dim_height = rect_height rect,
                   dim_top = rect_top rect, dim_left = rect_left rect \<rparr> \<rparr>)"

text \<open>
  \<^verbatim>\<open>downloadAnnotatedPDF\<close>: the \<^verbatim>\<open>try\<close> block under its \<^verbatim>\<open>catch\<close>, which writes the
  error to the console and returns. The result is \<open>Inl\<close> if an exception leaves the
  function, and otherwise the state after the call with what the call left behind. The
  function reads the annotations and sets no state.
\<close>

definition downloadAnnotatedPDF ::
  "'c collaborators \<Rightarrow> string \<Rightarrow> viewer_state \<Rightarrow> js_error + viewer_state \<times> export_effects" where
  "downloadAnnotatedPDF env pdfUrl st =
     (case download_try env pdfUrl (annotations st) of
        Inl e \<Rightarrow> Inr (st, \<lparr> downloaded = None, console_error = Some e \<rparr>)
      | Inr file \<Rightarrow> Inr (st, \<lparr> downloaded = file, console_error = None \<rparr>))"

text \<open>
  The events the rendered component reacts to, each bound to its handler as in the JSX:
  the overlay's \<^verbatim>\<open>onMouseDown\<close>, \<^verbatim>\<open>onMouseMove\<close>, \<^verbatim>\<open>onMouseUp\<close> and \<^verbatim>\<open>onMouseLeave\<close>
  (the last two both to \<^verbatim>\<open>handleMouseUp\<close>), the toolbar buttons, the colour input, the
  modal's text area and buttons, and the load and resize listeners. Each handler runs on
  the state of the latest render.
\<close>

datatype event =
    MouseDown mouse_event "dom_rect option"
  | MouseMove mouse_event "dom_rect option"
  | MouseUp
  | MouseLeave
  | ToggleTheme
  | SelectTool tool
  | ChangeColor string
  | ClearAll
  | ChangeModalText string
  | ModalCancel
  | ModalAdd
  | FrameResized "dom_rect option"

fun dispatch :: "event \<Rightarrow> viewer_state \<Rightarrow> viewer_state" where
  "dispatch (MouseDown e rect_opt) st = handleMouseDown e rect_opt st"
| "dispatch (MouseMove e rect_opt) st = handleMouseMove e rect_opt st"
| "dispatch MouseUp st = handleMouseUp st"
| "dispatch MouseLeave st = handleMouseUp st"
| "dispatch ToggleTheme st = st \<lparr> isDarkTheme := \<not> isDarkTheme st \<rparr>"
| "dispatch (SelectTool t) st = st \<lparr> currentTool := t \<rparr>"
| "dispatch (ChangeColor c) st = st \<lparr> annotationColor := c \<rparr>"
| "dispatch ClearAll st = st \<lparr> annotations := [] \<rparr>"
| "dispatch (ChangeModalText t) st = st \<lparr> modalText := t \<rparr>"
| "dispatch ModalCancel st = st \<lparr> isModalOpen := False \<rparr>"
| "dispatch ModalAdd st = handleModalSubmit st"
| "dispatch (FrameResized rect_opt) st = updateOverlayDimensions rect_opt st"

text \<open>A session: the events in order, from the initial state.\<close>

fun run :: "event list \<Rightarrow> viewer_state \<Rightarrow> viewer_state" where
  "run [] st = st"
| "run (ev # evs) st = run evs (dispatch ev st)"

section \<open>Sample data\<close>

text \<open>
  A library for the examples. Its \<^verbatim>\<open>rgb\<close> rejects a NaN and a channel outside 0 to 1,
  and each drawing method rejects a NaN among its numbers; every text is accepted. Then
  collaborators whose every step succeeds on a one-page document of 100 by 100 units
  under a 200 by 100 overlay, an overlay rectangle, and three short sessions.
\<close>

fun in_unit_range :: "number \<Rightarrow> bool" where
  "in_unit_range (JNum a) = (0 \<le> a \<and> a \<le> 1)"
| "in_unit_range _ = False"

definition checking_library :: "(number \<times> number \<times> number) pdf_library" where
  "checking_library =
     \<lparr> lib_rgb = (\<lambda>r g b.
         if r = NaN \<or> g = NaN \<or> b = NaN then Inl TypeError
         else if in_unit_range r \<and> in_unit_range g \<and> in_unit_range b then Inr (r, g, b)
         else Inl ColorRangeError),
       lib_drawRectangle = (\<lambda>opts.
         if rectangle_x opts = NaN \<or> rectangle_y opts = NaN \<or> rectangle_width opts = NaN
            \<or> rectangle_height opts = NaN \<or> rectangle_opacity opts = NaN
         then Some TypeError else None),
       lib_drawText = (\<lambda>txt opts.
         if text_x opts = NaN \<or> text_y opts = NaN \<or> text_size opts = NaN
         then Some TypeError else None),
       lib_drawLine = (\<lambda>opts.
         if px (line_start opts) = NaN \<or> py (line_start opts) = NaN
            \<or> px (line_end opts) = NaN \<or> py (line_end opts) = NaN
            \<or> line_thickness opts = NaN
         then Some TypeError else None) \<rparr>"

definition sample_collaborators :: "(number \<times> number \<times> number) collaborators" where
  "sample_collaborators =
     \<lparr> overlay_client_size = Some (JNum 200, JNum 100),
       fetch_arrayBuffer = (\<lambda>_. Inr [37, 80, 68, 70]),
       PDFDocument_load =
         (\<lambda>_. Inr [\<lparr> page_width = JNum 100, page_height = JNum 100, page_calls = [] \<rparr>]),
       PDFDocument_save = (\<lambda>_. Inr [37, 80, 68, 70, 10]),
       pdf_lib = checking_library \<rparr>"

definition sample_rect :: dom_rect where
  "sample_rect =
     \<lparr> rect_width = JNum 200, rect_height = JNum 100, rect_top = JNum 10, rect_left = JNum 20 \<rparr>"

definition drawing_session :: "event list" where
  "drawing_session =
     [SelectTool ToolDraw,
      MouseDown \<lparr> clientX = JNum 30, clientY = JNum 20 \<rparr> (Some sample_rect),
      MouseMove \<lparr> clientX = JNum 40, clientY = JNum 35 \<rparr> (Some sample_rect)]"

definition highlight_session :: "event list" where
  "highlight_session =
     [MouseDown \<lparr> clientX = JNum 30, clientY = JNum 20 \<rparr> (Some sample_rect),
      MouseMove \<lparr> clientX = JNum 70, clientY = JNum 50 \<rparr> (Some sample_rect)]"

definition text_session :: "event list" where
  "text_session =
     [SelectTool ToolText,
      MouseDown \<lparr> clientX = JNum 25, clientY = JNum 15 \<rparr> (Some sample_rect),
      ChangeModalText ''note'',
      ModalAdd]"

section \<open>Arithmetic facts\<close>

lemma js_div_zero_not_finite: "\<not> isFinite (js_div a (JNum 0))"
  by (cases a) (simp_all add: infinity_of_def)

lemma js_mul_not_finite: "\<not> isFinite a \<Longrightarrow> \<not> isFinite (js_mul a b)"
  by (cases a; cases b) (simp_all add: infinity_of_def)

lemma js_sub_not_finite: "\<not> isFinite b \<Longrightarrow> \<not> isFinite (js_sub a b)"
  by (cases a; cases b) simp_all

lemma Math_min_commute: "Math_min a b = Math_min b a"
  by (cases a; cases b) (auto simp: Math_min_def)

lemma Math_abs_sub_commute: "Math_abs (js_sub a b) = Math_abs (js_sub b a)"
  by (cases a; cases b) auto

section \<open>The Coordinate Projector\<close>

lemma spec_rendered_size_positive:
  assumes "0 < vw" "0 < vh" "0 < dw" "0 < dh"
  shows "0 < fst (spec_rendered_size vw vh dw dh)"
    and "0 < snd (spec_rendered_size vw vh dw dh)"
  using assms by (simp_all add: spec_rendered_size_def Let_def)

lemma fit_letterbox_spec:
  assumes "0 < vw" "0 < vh" "0 < dw" "0 < dh"
  shows "fit_letterbox (JNum vw) (JNum vh) (JNum dw) (JNum dh) =
           \<lparr> scaledWidth = JNum (fst (spec_rendered_size vw vh dw dh)),
             scaledHeight = JNum (snd (spec_rendered_size vw vh dw dh)),
             offsetX = JNum (fst (spec_offsets vw vh dw dh)),
             offsetY = JNum (snd (spec_offsets vw vh dw dh)) \<rparr>"
  using assms
  by (simp add: fit_letterbox_def spec_rendered_size_def spec_offsets_def Let_def)

text \<open>
  C1. For every finite point and all positive viewport and document sizes and scale, the
  code computes the specification's letterbox algorithm: its scaled size and offsets are
  the specification's rendered size and centring offsets, and the point it returns is the
  specification's projection \<open>outX\<close>, \<open>outY\<close>; a call without a scale is a call with
  scale 1.
\<close>

theorem projector_refines_spec:
  assumes "0 < vw" "0 < vh" "0 < dw" "0 < dh" "0 < s"
  shows "fit_letterbox (JNum vw) (JNum vh) (JNum dw) (JNum dh) =
           \<lparr> scaledWidth = JNum (fst (spec_rendered_size vw vh dw dh)),
             scaledHeight = JNum (snd (spec_rendered_size vw vh dw dh)),
             offsetX = JNum (fst (spec_offsets vw vh dw dh)),
             offsetY = JNum (snd (spec_offsets vw vh dw dh)) \<rparr>
         \<and> transformCoordinates \<lparr> px = JNum x, py = JNum y \<rparr>
              (JNum vw) (JNum vh) (JNum dw) (JNum dh) (Some (JNum s))
            = \<lparr> px = JNum (fst (spec_project (x, y) vw vh dw dh s)),
                py = JNum (snd (spec_project (x, y) vw vh dw dh s)) \<rparr>
         \<and> transformCoordinates \<lparr> px = JNum x, py = JNum y \<rparr>
              (JNum vw) (JNum vh) (JNum dw) (JNum dh) None
            = \<lparr> px = JNum (fst (spec_project (x, y) vw vh dw dh 1)),
                py = JNum (snd (spec_project (x, y) vw vh dw dh 1)) \<rparr>"
proof -
  note box = fit_letterbox_spec [OF assms(1-4)]
  have rw: "fst (spec_rendered_size vw vh dw dh) \<noteq> 0"
    and rh: "snd (spec_rendered_size vw vh dw dh) \<noteq> 0"
    using spec_rendered_size_positive [OF assms(1-4)] by simp_all
  have with_scale: "transformCoordinates \<lparr> px = JNum x, py = JNum y \<rparr>
              (JNum vw) (JNum vh) (JNum dw) (JNum dh) (Some (JNum t))
            = \<lparr> px = JNum (fst (spec_project (x, y) vw vh dw dh t)),
                py = JNum (snd (spec_project (x, y) vw vh dw dh t)) \<rparr>" for t
    using rw rh
    by (simp add: box transformCoordinates_def spec_project_def Let_def split_beta)
  have default: "transformCoordinates p ow oh pw ph None
                   = transformCoordinates p ow oh pw ph (Some (JNum 1))" for p ow oh pw ph
    by (simp add: transformCoordinates_def)
  show ?thesis
    by (simp only: box with_scale default simp_thms)
qed

theorem projector_refines_spec_witness:
  "(0::real) < 200 \<and> (0::real) < 100 \<and> (0::real) < 2
   \<and> spec_project (30, 20) 200 100 100 100 2 = (- 40, 60)
   \<and> transformCoordinates \<lparr> px = JNum 30, py = JNum 20 \<rparr>
        (JNum 200) (JNum 100) (JNum 100) (JNum 100) (Some (JNum 2))
      = \<lparr> px = JNum (- 40), py = JNum 60 \<rparr>"
proof -
  have sp: "spec_project (30, 20) 200 100 100 100 2 = (- 40, 60)"
    by (simp add: spec_project_def spec_offsets_def spec_rendered_size_def Let_def)
  show ?thesis
    using projector_refines_spec [of 200 100 100 100 2 30 20] by (simp add: sp)
qed

text \<open>
  Equal aspect ratios in exact arithmetic: when the viewport and the page have the same
  aspect ratio (all four sizes positive), there is no centring offset, and the projector,
  called without a scale, maps the viewport point (0, 0) to (0, documentHeight) and the
  viewport point (viewportWidth, viewportHeight) to (documentWidth, 0).
\<close>

lemma equal_aspect_corners_exact:
  assumes "0 < vw" "0 < vh" "0 < dw" "0 < dh" "vw / vh = dw / dh"
  shows "offsetX (fit_letterbox (JNum vw) (JNum vh) (JNum dw) (JNum dh)) = JNum 0
         \<and> offsetY (fit_letterbox (JNum vw) (JNum vh) (JNum dw) (JNum dh)) = JNum 0
         \<and> transformCoordinates \<lparr> px = JNum 0, py = JNum 0 \<rparr>
              (JNum vw) (JNum vh) (JNum dw) (JNum dh) None
            = \<lparr> px = JNum 0, py = JNum dh \<rparr>
         \<and> transformCoordinates \<lparr> px = JNum vw, py = JNum vh \<rparr>
              (JNum vw) (JNum vh) (JNum dw) (JNum dh) None
            = \<lparr> px = JNum dw, py = JNum 0 \<rparr>"
proof -
  have sh: "vw / (dw / dh) = vh"
    using assms by (simp add: field_simps)
  have box: "fit_letterbox (JNum vw) (JNum vh) (JNum dw) (JNum dh) =
               \<lparr> scaledWidth = JNum vw, scaledHeight = JNum vh,
                 offsetX = JNum 0, offsetY = JNum 0 \<rparr>"
    using assms(1-4) sh by (simp add: fit_letterbox_def Let_def assms(5))
  show ?thesis
    using assms(1-4) by (simp add: box transformCoordinates_def Let_def)
qed

text \<open>With an explicit scale \<open>s\<close> the far corner goes to (documentWidth * s,
  documentHeight - documentHeight * s): the corners above are those of the default scale.\<close>

lemma equal_aspect_far_corner_scaled:
  assumes "0 < vw" "0 < vh" "0 < dw" "0 < dh" "vw / vh = dw / dh"
  shows "transformCoordinates \<lparr> px = JNum vw, py = JNum vh \<rparr>
           (JNum vw) (JNum vh) (JNum dw) (JNum dh) (Some (JNum s))
         = \<lparr> px = JNum (dw * s), py = JNum (dh - dh * s) \<rparr>"
proof -
  have sh: "vw / (dw / dh) = vh"
    using assms by (simp add: field_simps)
  have box: "fit_letterbox (JNum vw) (JNum vh) (JNum dw) (JNum dh) =
               \<lparr> scaledWidth = JNum vw, scaledHeight = JNum vh,
                 offsetX = JNum 0, offsetY = JNum 0 \<rparr>"
    using assms(1-4) sh by (simp add: fit_letterbox_def Let_def assms(5))
  show ?thesis
    using assms(1-4) by (simp add: box transformCoordinates_def Let_def)
qed

text \<open>
  C6. With a 200 by 100 viewport and a 100 by 100 page the rendered width is 100 and the
  horizontal offset 50, and the viewport point (50, 0) is projected to the document
  point (0, 100), without a scale and with any finite scale.
\<close>

theorem letterbox_offset_example:
  "scaledWidth (fit_letterbox (JNum 200) (JNum 100) (JNum 100) (JNum 100)) = JNum 100
   \<and> offsetX (fit_letterbox (JNum 200) (JNum 100) (JNum 100) (JNum 100)) = JNum 50
   \<and> transformCoordinates \<lparr> px = JNum 50, py = JNum 0 \<rparr>
        (JNum 200) (JNum 100) (JNum 100) (JNum 100) None
      = \<lparr> px = JNum 0, py = JNum 100 \<rparr>
   \<and> transformCoordinates \<lparr> px = JNum 50, py = JNum 0 \<rparr>
        (JNum 200) (JNum 100) (JNum 100) (JNum 100) (Some (JNum s))
      = \<lparr> px = JNum 0, py = JNum 100 \<rparr>"
  by (simp add: transformCoordinates_def fit_letterbox_def Let_def)

text \<open>
  C3, amended to what the code does. The projector has no guard and no failure: it
  always returns a point. When the scaled (rendered) width is zero the \<open>x\<close> it returns is NaN or an
  infinity, and when the scaled height is zero the \<open>y\<close> it returns is NaN or an infinity,
  for every input point and every scale.
\<close>

theorem zero_rendered_size_not_finite:
  "(scaledWidth (fit_letterbox ow oh pw ph) = JNum 0 \<longrightarrow>
       \<not> isFinite (px (transformCoordinates p ow oh pw ph sc)))
   \<and> (scaledHeight (fit_letterbox ow oh pw ph) = JNum 0 \<longrightarrow>
       \<not> isFinite (py (transformCoordinates p ow oh pw ph sc)))"
  by (simp add: transformCoordinates_def Let_def js_div_zero_not_finite
      js_mul_not_finite js_sub_not_finite)

theorem zero_rendered_size_not_finite_witness:
  "scaledWidth (fit_letterbox (JNum 0) (JNum 0) (JNum 100) (JNum 100)) = JNum 0
   \<and> scaledHeight (fit_letterbox (JNum 0) (JNum 0) (JNum 100) (JNum 100)) = JNum 0
   \<and> \<not> isFinite (px (transformCoordinates \<lparr> px = JNum 10, py = JNum 10 \<rparr>
                        (JNum 0) (JNum 0) (JNum 100) (JNum 100) None))
   \<and> \<not> isFinite (py (transformCoordinates \<lparr> px = JNum 10, py = JNum 10 \<rparr>
                        (JNum 0) (JNum 0) (JNum 100) (JNum 100) None))"
proof -
  have zero: "scaledWidth (fit_letterbox (JNum 0) (JNum 0) (JNum 100) (JNum 100)) = JNum 0"
    "scaledHeight (fit_letterbox (JNum 0) (JNum 0) (JNum 100) (JNum 100)) = JNum 0"
    by (simp_all add: fit_letterbox_def Let_def infinity_of_def)
  show ?thesis
    using zero
      zero_rendered_size_not_finite [of "JNum 0" "JNum 0" "JNum 100" "JNum 100"
        "\<lparr> px = JNum 10, py = JNum 10 \<rparr>" None]
    by simp
qed

text \<open>
  C3 as stated, that a zero rendered size makes the projector fail before dividing, does
  not hold: with the overlay's initial size of 0 by 0 over a 100 by 100 page both scaled
  sizes are zero, and the projector returns the point (Infinity, -Infinity) for the input
  (10, 10).
\<close>

theorem zero_viewport_returns_infinities:
  "scaledWidth (fit_letterbox (JNum 0) (JNum 0) (JNum 100) (JNum 100)) = JNum 0
   \<and> scaledHeight (fit_letterbox (JNum 0) (JNum 0) (JNum 100) (JNum 100)) = JNum 0
   \<and> transformCoordinates \<lparr> px = JNum 10, py = JNum 10 \<rparr>
        (JNum 0) (JNum 0) (JNum 100) (JNum 100) None
      = \<lparr> px = PosInfinity, py = NegInfinity \<rparr>"
  by (simp add: transformCoordinates_def fit_letterbox_def Let_def infinity_of_def)

section \<open>The Coordinate Projector in binary64\<close>

lemma binade_down_numeral [simp]:
  "binade_down (numeral k) x = (if 2 \<le> x then 2 * binade_down (pred_numeral k) (x / 2) else 1)"
  by (simp add: numeral_eq_Suc)

lemma binade_up_numeral [simp]:
  "binade_up (numeral k) x = (if x < 1 then binade_up (pred_numeral k) (2 * x) / 2 else 1)"
  by (simp add: numeral_eq_Suc)






























section \<open>Colour conversion\<close>

lemma digitValue_less_16: "digitValue c = Some m \<Longrightarrow> m < 16"
  by (auto simp: digitValue_def Let_def split: if_splits)

lemma parseInt16_two_digits:
  assumes "digitValue c = Some m" "digitValue d = Some n"
  shows "parseInt16 [c, d] = JNum (real (16 * m + n))"
proof -
  have hex: "isHexDigit c" "isHexDigit d"
    using assms by (simp_all add: isHexDigit_def)
  have no_space: "\<not> isWhiteSpace c"
    using assms(1) by (auto simp: isWhiteSpace_def digitValue_def Let_def split: if_splits)
  have no_sign: "c \<noteq> CHR ''+''" "c \<noteq> CHR ''-''"
    using assms(1) by (auto simp: digitValue_def Let_def split: if_splits)
  have no_prefix: "d \<noteq> CHR ''x''" "d \<noteq> CHR ''X''"
    using assms(2) by (auto simp: digitValue_def Let_def split: if_splits)
  show ?thesis
    using hex no_space no_sign no_prefix assms
    by (simp add: parseInt16_def radix16_value_def Let_def)
qed

lemma byte_over_255_in_unit_range:
  assumes "m < 16" "n < 16"
  shows "0 \<le> real (16 * m + n) / 255" and "real (16 * m + n) / 255 \<le> 1"
proof -
  show "0 \<le> real (16 * m + n) / 255" by simp
  have "16 * m + n \<le> 255" using assms by linarith
  then have "real (16 * m + n) \<le> 255"
    by (metis of_nat_le_iff of_nat_numeral)
  then show "real (16 * m + n) / 255 \<le> 1" by simp
qed

text \<open>
  C8. For a canonical colour string, a \<^verbatim>\<open>#\<close> and six hexadecimal digits, each channel
  is the value of its two digits as a byte divided by 255, a number between 0 and 1;
  \<^verbatim>\<open>#FF0000\<close> gives (1, 0, 0), \<^verbatim>\<open>#000000\<close> gives (0, 0, 0) and \<^verbatim>\<open>#FFFFFF\<close> gives
  (1, 1, 1).
\<close>

theorem hexToRgb_canonical:
  "(digitValue r1 = Some a1 \<and> digitValue r2 = Some a2 \<and>
    digitValue g1 = Some b1 \<and> digitValue g2 = Some b2 \<and>
    digitValue d1 = Some c1 \<and> digitValue d2 = Some c2 \<longrightarrow>
      hexToRgb [CHR ''#'', r1, r2, g1, g2, d1, d2] =
        \<lparr> ch_r = JNum (real (16 * a1 + a2) / 255),
          ch_g = JNum (real (16 * b1 + b2) / 255),
          ch_b = JNum (real (16 * c1 + c2) / 255) \<rparr>
      \<and> 0 \<le> real (16 * a1 + a2) / 255 \<and> real (16 * a1 + a2) / 255 \<le> 1
      \<and> 0 \<le> real (16 * b1 + b2) / 255 \<and> real (16 * b1 + b2) / 255 \<le> 1
      \<and> 0 \<le> real (16 * c1 + c2) / 255 \<and> real (16 * c1 + c2) / 255 \<le> 1)
   \<and> hexToRgb ''#FF0000'' = \<lparr> ch_r = JNum 1, ch_g = JNum 0, ch_b = JNum 0 \<rparr>
   \<and> hexToRgb ''#000000'' = \<lparr> ch_r = JNum 0, ch_g = JNum 0, ch_b = JNum 0 \<rparr>
   \<and> hexToRgb ''#FFFFFF'' = \<lparr> ch_r = JNum 1, ch_g = JNum 1, ch_b = JNum 1 \<rparr>"
proof (intro conjI impI)
  assume digits: "digitValue r1 = Some a1 \<and> digitValue r2 = Some a2 \<and>
    digitValue g1 = Some b1 \<and> digitValue g2 = Some b2 \<and>
    digitValue d1 = Some c1 \<and> digitValue d2 = Some c2"
  then show "hexToRgb [CHR ''#'', r1, r2, g1, g2, d1, d2] =
        \<lparr> ch_r = JNum (real (16 * a1 + a2) / 255),
          ch_g = JNum (real (16 * b1 + b2) / 255),
          ch_b = JNum (real (16 * c1 + c2) / 255) \<rparr>"
    by (simp add: hexToRgb_def substring_def Let_def parseInt16_two_digits)
  from digits have bound: "a1 < 16" "a2 < 16" "b1 < 16" "b2 < 16" "c1 < 16" "c2 < 16"
    by (auto intro: digitValue_less_16)
  show "0 \<le> real (16 * a1 + a2) / 255" "0 \<le> real (16 * b1 + b2) / 255"
    "0 \<le> real (16 * c1 + c2) / 255"
    by simp_all
  show "real (16 * a1 + a2) / 255 \<le> 1"
    using bound(1,2) by (rule byte_over_255_in_unit_range)
  show "real (16 * b1 + b2) / 255 \<le> 1"
    using bound(3,4) by (rule byte_over_255_in_unit_range)
  show "real (16 * c1 + c2) / 255 \<le> 1"
    using bound(5,6) by (rule byte_over_255_in_unit_range)
next
  show "hexToRgb ''#FF0000'' = \<lparr> ch_r = JNum 1, ch_g = JNum 0, ch_b = JNum 0 \<rparr>"
    by (simp add: hexToRgb_def substring_def Let_def parseInt16_def radix16_value_def
        isWhiteSpace_def isHexDigit_def digitValue_def)
next
  show "hexToRgb ''#000000'' = \<lparr> ch_r = JNum 0, ch_g = JNum 0, ch_b = JNum 0 \<rparr>"
    by (simp add: hexToRgb_def substring_def Let_def parseInt16_def radix16_value_def
        isWhiteSpace_def isHexDigit_def digitValue_def)
next
  show "hexToRgb ''#FFFFFF'' = \<lparr> ch_r = JNum 1, ch_g = JNum 1, ch_b = JNum 1 \<rparr>"
    by (simp add: hexToRgb_def substring_def Let_def parseInt16_def radix16_value_def
        isWhiteSpace_def isHexDigit_def digitValue_def)
qed

theorem hexToRgb_canonical_witness:
  "digitValue CHR ''1'' = Some 1 \<and> digitValue CHR ''a'' = Some 10
   \<and> digitValue CHR ''2'' = Some 2 \<and> digitValue CHR ''B'' = Some 11
   \<and> digitValue CHR ''3'' = Some 3 \<and> digitValue CHR ''c'' = Some 12
   \<and> hexToRgb ''#1a2B3c'' =
       \<lparr> ch_r = JNum (26 / 255), ch_g = JNum (43 / 255), ch_b = JNum (60 / 255) \<rparr>"
proof -
  have digits: "digitValue CHR ''1'' = Some 1" "digitValue CHR ''a'' = Some 10"
    "digitValue CHR ''2'' = Some 2" "digitValue CHR ''B'' = Some 11"
    "digitValue CHR ''3'' = Some 3" "digitValue CHR ''c'' = Some 12"
    by (simp_all add: digitValue_def)
  show ?thesis
    using digits
      hexToRgb_canonical [of "CHR ''1''" 1 "CHR ''a''" 10 "CHR ''2''" 2 "CHR ''B''" 11
        "CHR ''3''" 3 "CHR ''c''" 12]
    by simp
qed

section \<open>Export of single annotations\<close>

text \<open>
  C4. Exporting a highlight with corners \<open>a\<close> and \<open>b\<close> and exporting it with the corners
  exchanged have the same outcome, whatever the overlay and page sizes, the scale, the
  colour, the page so far and the library: the same rectangle call (position, size,
  colour, opacity), or the same exception.
\<close>

theorem highlight_corner_order:
  "export_annotation lib ow oh pw ph sc (HighlightAnnotation n a b col) calls
     = export_annotation lib ow oh pw ph sc (HighlightAnnotation n b a col) calls"
proof -
  let ?s = "transformCoordinates a ow oh pw ph (Some sc)"
  let ?e = "transformCoordinates b ow oh pw ph (Some sc)"
  have x: "Math_min (px ?s) (px ?e) = Math_min (px ?e) (px ?s)"
    and y: "Math_min (py ?s) (py ?e) = Math_min (py ?e) (py ?s)"
    by (rule Math_min_commute)+
  have w: "Math_abs (js_sub (px ?e) (px ?s)) = Math_abs (js_sub (px ?s) (px ?e))"
    and h: "Math_abs (js_sub (py ?e) (py ?s)) = Math_abs (js_sub (py ?s) (py ?e))"
    by (rule Math_abs_sub_commute)+
  show ?thesis
    unfolding export_annotation.simps Let_def x y w h ..
qed

lemma red_channels: "hexToRgb ''#FF0000'' = \<lparr> ch_r = JNum 1, ch_g = JNum 0, ch_b = JNum 0 \<rparr>"
  by (simp add: hexToRgb_def substring_def Let_def parseInt16_def radix16_value_def
      isWhiteSpace_def isHexDigit_def digitValue_def)

text \<open>The corners (10, 10) and (50, 40) of the claim, on a 100 by 100 overlay over a
  100 by 100 page: in both orders the rectangle at (10, 60) of size 40 by 30.\<close>

theorem highlight_corner_order_witness:
  "export_annotation checking_library (JNum 100) (JNum 100) (JNum 100) (JNum 100) (JNum 1)
     (HighlightAnnotation (JNum 1) \<lparr> px = JNum 50, py = JNum 40 \<rparr>
        \<lparr> px = JNum 10, py = JNum 10 \<rparr> ''#FF0000'') []
   = export_annotation checking_library (JNum 100) (JNum 100) (JNum 100) (JNum 100) (JNum 1)
     (HighlightAnnotation (JNum 1) \<lparr> px = JNum 10, py = JNum 10 \<rparr>
        \<lparr> px = JNum 50, py = JNum 40 \<rparr> ''#FF0000'') []
   \<and> export_annotation checking_library (JNum 100) (JNum 100) (JNum 100) (JNum 100) (JNum 1)
     (HighlightAnnotation (JNum 1) \<lparr> px = JNum 10, py = JNum 10 \<rparr>
        \<lparr> px = JNum 50, py = JNum 40 \<rparr> ''#FF0000'') []
   = Inr [DrawRectangle \<lparr> rectangle_x = JNum 10, rectangle_y = JNum 60,
            rectangle_width = JNum 40, rectangle_height = JNum 30,
            rectangle_color = (JNum 1, JNum 0, JNum 0),
            rectangle_opacity = JNum (35 / 100) \<rparr>]"
proof -
  have direct: "export_annotation checking_library
       (JNum 100) (JNum 100) (JNum 100) (JNum 100) (JNum 1)
       (HighlightAnnotation (JNum 1) \<lparr> px = JNum 10, py = JNum 10 \<rparr>
          \<lparr> px = JNum 50, py = JNum 40 \<rparr> ''#FF0000'') []
     = Inr [DrawRectangle \<lparr> rectangle_x = JNum 10, rectangle_y = JNum 60,
            rectangle_width = JNum 40, rectangle_height = JNum 30,
            rectangle_color = (JNum 1, JNum 0, JNum 0),
            rectangle_opacity = JNum (35 / 100) \<rparr>]"
    by (simp add: red_channels Let_def transformCoordinates_def fit_letterbox_def Math_min_def
        checking_library_def)
  show ?thesis
    using direct
      highlight_corner_order [of checking_library "JNum 100" "JNum 100" "JNum 100"
        "JNum 100" "JNum 1" "JNum 1" "\<lparr> px = JNum 50, py = JNum 40 \<rparr>"
        "\<lparr> px = JNum 10, py = JNum 10 \<rparr>" "''#FF0000''" "[]"]
    by simp
qed

lemma draw_points_from:
  assumes "lib_rgb lib (ch_r color) (ch_g color) (ch_b color) = Inr c"
    and "\<forall>seg \<in> set (zip (lp # map (\<lambda>q. transformCoordinates q ow oh pw ph (Some sc)) pts)
                          (map (\<lambda>q. transformCoordinates q ow oh pw ph (Some sc)) pts)).
           lib_drawLine lib \<lparr> line_start = fst seg, line_end = snd seg,
             line_thickness = js_div (js_mul w pw) ow, line_color = c \<rparr> = None"
  shows "draw_points lib ow oh pw ph sc color w pts (Some lp) calls =
     Inr (calls @ map (\<lambda>seg. DrawLine \<lparr> line_start = fst seg, line_end = snd seg,
                         line_thickness = js_div (js_mul w pw) ow, line_color = c \<rparr>)
                   (zip (lp # map (\<lambda>q. transformCoordinates q ow oh pw ph (Some sc)) pts)
                        (map (\<lambda>q. transformCoordinates q ow oh pw ph (Some sc)) pts)))"
  using assms by (induction pts arbitrary: lp calls) (simp_all add: Let_def)

lemma draw_points_start:
  assumes "lib_rgb lib (ch_r color) (ch_g color) (ch_b color) = Inr c"
    and "\<forall>seg \<in> set (zip (map (\<lambda>q. transformCoordinates q ow oh pw ph (Some sc)) pts)
                          (tl (map (\<lambda>q. transformCoordinates q ow oh pw ph (Some sc)) pts))).
           lib_drawLine lib \<lparr> line_start = fst seg, line_end = snd seg,
             line_thickness = js_div (js_mul w pw) ow, line_color = c \<rparr> = None"
  shows "draw_points lib ow oh pw ph sc color w pts None calls =
     Inr (calls @ map (\<lambda>seg. DrawLine \<lparr> line_start = fst seg, line_end = snd seg,
                         line_thickness = js_div (js_mul w pw) ow, line_color = c \<rparr>)
                   (zip (map (\<lambda>q. transformCoordinates q ow oh pw ph (Some sc)) pts)
                        (tl (map (\<lambda>q. transformCoordinates q ow oh pw ph (Some sc)) pts))))"
proof (cases pts)
  case Nil
  then show ?thesis by simp
next
  case (Cons q rest)
  show ?thesis
    using assms(2) unfolding Cons
    by (simp add: Let_def draw_points_from [OF assms(1)])
qed





text \<open>Where the library rejects a line the loop ends with the exception and nothing is
  drawn: on an overlay of 0 by 0 the scale is 0, the projected coordinates are NaN, and
  the first \<^verbatim>\<open>drawLine\<close> of a two-point path throws.\<close>

lemma zero_overlay_path_aborts:
  "export_annotation checking_library (JNum 0) (JNum 0) (JNum 100) (JNum 100)
      (Math_min (js_div (JNum 0) (JNum 100)) (js_div (JNum 0) (JNum 100)))
      (DrawingAnnotation (JNum 1)
         [\<lparr> px = JNum 10, py = JNum 10 \<rparr>, \<lparr> px = JNum 20, py = JNum 20 \<rparr>]
         ''#FF0000'' (JNum 2)) []
    = Inl TypeError"
  by (simp add: red_channels checking_library_def Let_def transformCoordinates_def
      fit_letterbox_def Math_min_def infinity_of_def)

lemma transformCoordinates_finite:
  assumes "0 < ow" "0 < oh" "0 < pw" "0 < ph"
  shows "\<exists>u v. transformCoordinates \<lparr> px = JNum x, py = JNum y \<rparr>
                  (JNum ow) (JNum oh) (JNum pw) (JNum ph) (Some (JNum s))
                = \<lparr> px = JNum u, py = JNum v \<rparr>"
proof -
  have nz: "fst (spec_rendered_size ow oh pw ph) \<noteq> 0" "snd (spec_rendered_size ow oh pw ph) \<noteq> 0"
    using spec_rendered_size_positive [OF assms] by simp_all
  show ?thesis
    using nz by (simp add: fit_letterbox_spec [OF assms] transformCoordinates_def Let_def)
qed

lemma export_scale_finite:
  assumes "0 < pw" "0 < ph"
  shows "\<exists>s. Math_min (js_div (JNum ow) (JNum pw)) (js_div (JNum oh) (JNum ph)) = JNum s"
  using assms by (simp add: Math_min_def)

lemma checking_library_accepts_finite_line:
  "lib_drawLine checking_library
     \<lparr> line_start = \<lparr> px = JNum a, py = JNum b \<rparr>, line_end = \<lparr> px = JNum a', py = JNum b' \<rparr>,
       line_thickness = JNum t, line_color = c \<rparr> = None"
  by (simp add: checking_library_def)

text \<open>On a viewport and a page of positive size, a path through finite points in a colour
  that \<^verbatim>\<open>rgb\<close> accepts is drawn in full by the sample library.\<close>

lemma freehand_path_on_positive_geometry:
  assumes "0 < ow" "0 < oh" "0 < pw" "0 < ph"
    and "lib_rgb checking_library (ch_r (hexToRgb col)) (ch_g (hexToRgb col))
           (ch_b (hexToRgb col)) = Inr c"
  shows "\<exists>lines. export_annotation checking_library (JNum ow) (JNum oh) (JNum pw) (JNum ph)
            (Math_min (js_div (JNum ow) (JNum pw)) (js_div (JNum oh) (JNum ph)))
            (DrawingAnnotation n (map (\<lambda>xy. \<lparr> px = JNum (fst xy), py = JNum (snd xy) \<rparr>) xys)
               col (JNum w)) calls
          = Inr (calls @ map DrawLine lines)
        \<and> length lines = length xys - 1"
proof -
  obtain s where s: "Math_min (js_div (JNum ow) (JNum pw)) (js_div (JNum oh) (JNum ph)) = JNum s"
    using export_scale_finite [OF assms(3,4)] by blast
  let ?pts = "map (\<lambda>xy. \<lparr> px = JNum (fst xy), py = JNum (snd xy) \<rparr>) xys"
  let ?T = "\<lambda>q. transformCoordinates q (JNum ow) (JNum oh) (JNum pw) (JNum ph) (Some (JNum s))"
  let ?line = "\<lambda>seg. \<lparr> line_start = fst seg, line_end = snd seg,
                 line_thickness = js_div (js_mul (JNum w) (JNum pw)) (JNum ow), line_color = c \<rparr>"
  have fin: "\<exists>u v. q = \<lparr> px = JNum u, py = JNum v \<rparr>" if "q \<in> set (map ?T ?pts)" for q
    using that transformCoordinates_finite [OF assms(1-4)] by auto
  have thick: "js_div (js_mul (JNum w) (JNum pw)) (JNum ow) = JNum (w * pw / ow)"
    using assms(1) by simp
  have ok: "\<forall>seg \<in> set (zip (map ?T ?pts) (tl (map ?T ?pts))). lib_drawLine checking_library (?line seg) = None"
  proof
    fix seg assume mem: "seg \<in> set (zip (map ?T ?pts) (tl (map ?T ?pts)))"
    obtain p q where seg: "seg = (p, q)" by (cases seg)
    have "p \<in> set (map ?T ?pts)"
      using mem unfolding seg by (rule set_zip_leftD)
    moreover have "q \<in> set (tl (map ?T ?pts))"
      using mem unfolding seg by (rule set_zip_rightD)
    then have "q \<in> set (map ?T ?pts)"
      by (cases "map ?T ?pts") simp_all
    ultimately obtain a b a' b' where "fst seg = \<lparr> px = JNum a, py = JNum b \<rparr>"
      "snd seg = \<lparr> px = JNum a', py = JNum b' \<rparr>"
      using fin unfolding seg by fastforce
    then show "lib_drawLine checking_library (?line seg) = None"
      by (simp only: thick checking_library_accepts_finite_line)
  qed
  have "export_annotation checking_library (JNum ow) (JNum oh) (JNum pw) (JNum ph) (JNum s)
            (DrawingAnnotation n ?pts col (JNum w)) calls
          = Inr (calls @ map DrawLine (map ?line (zip (map ?T ?pts) (tl (map ?T ?pts)))))"
    using draw_points_start [of checking_library "hexToRgb col" c, OF assms(5) ok]
    by (simp add: comp_def)
  moreover have "length (map ?line (zip (map ?T ?pts) (tl (map ?T ?pts)))) = length xys - 1"
    by simp
  ultimately show ?thesis
    unfolding s by blast
qed

section \<open>The export operation\<close>

lemma downloadAnnotatedPDF_returns:
  "\<exists>effects. downloadAnnotatedPDF env url st = Inr (st, effects)"
  by (simp add: downloadAnnotatedPDF_def split: sum.splits)

lemma downloadAnnotatedPDF_without_overlay:
  "overlay_client_size env = None \<Longrightarrow>
   downloadAnnotatedPDF env url st = Inr (st, \<lparr> downloaded = None, console_error = None \<rparr>)"
  by (simp add: downloadAnnotatedPDF_def download_try_def)

lemma text_session_annotations:
  "annotations (run text_session initial_state)
     = [TextAnnotation (JNum 1) \<lparr> px = JNum 5, py = JNum 5 \<rparr> ''note'' ''#FFFF00'']"
  by (simp add: text_session_def initial_state_def sample_rect_def handleMouseDown_def
      handleModalSubmit_def event_point_def Let_def)

text \<open>
  C2. When the export is under way (the overlay is mounted) and the fetch of the source
  bytes fails, or the fetched bytes fail to load, or the annotated document fails to
  save, with an error \<open>e\<close>, then \<^verbatim>\<open>downloadAnnotatedPDF\<close> returns normally: no
  exception leaves it, the component's state (the annotations among it) is the state
  before the call, no file is handed over for download, and \<open>e\<close> is what was written to
  the console.
\<close>

theorem export_failure_caught:
  assumes "overlay_client_size env = Some (ow, oh)"
    and "fetch_arrayBuffer env url = Inl e
         \<or> (\<exists>bs. fetch_arrayBuffer env url = Inr bs \<and> PDFDocument_load env bs = Inl e)
         \<or> (\<exists>doc. annotated_document env ow oh url (annotations st) = Inr doc
                  \<and> PDFDocument_save env doc = Inl e)"
  shows "downloadAnnotatedPDF env url st
           = Inr (st, \<lparr> downloaded = None, console_error = Some e \<rparr>)"
proof -
  have "download_try env url (annotations st) = Inl e"
    using assms by (auto simp: download_try_def annotated_document_def)
  then show ?thesis
    by (simp add: downloadAnnotatedPDF_def)
qed

text \<open>The three failures one by one, each injected into collaborators that otherwise
  succeed.\<close>

theorem export_failure_caught_witness:
  "downloadAnnotatedPDF (sample_collaborators \<lparr> fetch_arrayBuffer := (\<lambda>_. Inl FetchFailure) \<rparr>)
      ''doc.pdf'' (run text_session initial_state)
     = Inr (run text_session initial_state,
            \<lparr> downloaded = None, console_error = Some FetchFailure \<rparr>)
   \<and> downloadAnnotatedPDF (sample_collaborators \<lparr> PDFDocument_load := (\<lambda>_. Inl ParseFailure) \<rparr>)
      ''doc.pdf'' (run text_session initial_state)
     = Inr (run text_session initial_state,
            \<lparr> downloaded = None, console_error = Some ParseFailure \<rparr>)
   \<and> downloadAnnotatedPDF (sample_collaborators \<lparr> PDFDocument_save := (\<lambda>_. Inl SerializeFailure) \<rparr>)
      ''doc.pdf'' (run text_session initial_state)
     = Inr (run text_session initial_state,
            \<lparr> downloaded = None, console_error = Some SerializeFailure \<rparr>)"
proof (intro conjI)
  show "downloadAnnotatedPDF (sample_collaborators \<lparr> fetch_arrayBuffer := (\<lambda>_. Inl FetchFailure) \<rparr>)
      ''doc.pdf'' (run text_session initial_state)
     = Inr (run text_session initial_state,
            \<lparr> downloaded = None, console_error = Some FetchFailure \<rparr>)"
    by (rule export_failure_caught [where ow = "JNum 200" and oh = "JNum 100"])
       (simp_all add: sample_collaborators_def)
next
  show "downloadAnnotatedPDF (sample_collaborators \<lparr> PDFDocument_load := (\<lambda>_. Inl ParseFailure) \<rparr>)
      ''doc.pdf'' (run text_session initial_state)
     = Inr (run text_session initial_state,
            \<lparr> downloaded = None, console_error = Some ParseFailure \<rparr>)"
    by (rule export_failure_caught [where ow = "JNum 200" and oh = "JNum 100"])
       (simp_all add: sample_collaborators_def)
next
  show "downloadAnnotatedPDF (sample_collaborators \<lparr> PDFDocument_save := (\<lambda>_. Inl SerializeFailure) \<rparr>)
      ''doc.pdf'' (run text_session initial_state)
     = Inr (run text_session initial_state,
            \<lparr> downloaded = None, console_error = Some SerializeFailure \<rparr>)"
    by (rule export_failure_caught [where ow = "JNum 200" and oh = "JNum 100"])
       (simp_all add: sample_collaborators_def annotated_document_def
          text_session_annotations Let_def checking_library_def hexToRgb_def substring_def
          parseInt16_def radix16_value_def isWhiteSpace_def isHexDigit_def digitValue_def
          transformCoordinates_def fit_letterbox_def Math_min_def)
qed

lemma export_success_example:
  "downloadAnnotatedPDF sample_collaborators ''doc.pdf'' initial_state
     = Inr (initial_state,
            \<lparr> downloaded = Some (''annotated-document.pdf'', [37, 80, 68, 70, 10]),
              console_error = None \<rparr>)"
  by (simp add: downloadAnnotatedPDF_def download_try_def annotated_document_def
      sample_collaborators_def initial_state_def Let_def)

text \<open>A colour that the library's \<^verbatim>\<open>rgb\<close> rejects ends the export in the same way:
  the exception is caught, nothing is downloaded.\<close>

lemma rejected_colour_is_caught:
  "downloadAnnotatedPDF
      (sample_collaborators
         \<lparr> pdf_lib := checking_library \<lparr> lib_rgb := (\<lambda>r g b. Inl ColorRangeError) \<rparr> \<rparr>)
      ''doc.pdf'' (run text_session initial_state)
     = Inr (run text_session initial_state,
            \<lparr> downloaded = None, console_error = Some ColorRangeError \<rparr>)"
  by (simp add: downloadAnnotatedPDF_def download_try_def annotated_document_def
      sample_collaborators_def checking_library_def text_session_annotations Let_def)

section \<open>The capture engine\<close>

text \<open>
  C9. The pointer leaving the overlay has the effect of the pointer being released, in
  every state. With a drawing in progress it appends the drawing annotation of the path
  so far; with a highlight in progress it appends the highlight from the start point to
  the current point. Nothing captured is dropped.
\<close>

theorem abort_is_gesture_end:
  "dispatch MouseLeave st = dispatch MouseUp st
   \<and> (currentTool st = ToolDraw \<and> isDrawing st \<longrightarrow>
        annotations (dispatch MouseLeave st)
          = annotations st @
              [DrawingAnnotation (JNum 1) (currentPath st) (annotationColor st) (JNum 2)])
   \<and> (currentTool st = ToolHighlight \<and> highlightInfo st = Some info \<longrightarrow>
        annotations (dispatch MouseLeave st)
          = annotations st @
              [HighlightAnnotation (JNum 1) (info_start info) (info_current info)
                 (annotationColor st)])"
  by (simp add: handleMouseUp_def Let_def split: option.splits)

lemma drawing_session_state:
  "currentTool (run drawing_session initial_state) = ToolDraw"
  "isDrawing (run drawing_session initial_state)"
  "currentPath (run drawing_session initial_state)
     = [\<lparr> px = JNum 10, py = JNum 10 \<rparr>, \<lparr> px = JNum 20, py = JNum 25 \<rparr>]"
  "annotations (run drawing_session initial_state) = []"
  "annotationColor (run drawing_session initial_state) = ''#FFFF00''"
  by (simp_all add: drawing_session_def initial_state_def sample_rect_def
      handleMouseDown_def handleMouseMove_def event_point_def Let_def)

lemma highlight_session_state:
  "currentTool (run highlight_session initial_state) = ToolHighlight"
  "highlightInfo (run highlight_session initial_state)
     = Some \<lparr> info_start = \<lparr> px = JNum 10, py = JNum 10 \<rparr>,
              info_current = \<lparr> px = JNum 50, py = JNum 40 \<rparr> \<rparr>"
  "annotations (run highlight_session initial_state) = []"
  "annotationColor (run highlight_session initial_state) = ''#FFFF00''"
  by (simp_all add: highlight_session_def initial_state_def sample_rect_def
      handleMouseDown_def handleMouseMove_def event_point_def Let_def)

theorem abort_is_gesture_end_witness:
  "currentTool (run drawing_session initial_state) = ToolDraw
   \<and> isDrawing (run drawing_session initial_state)
   \<and> annotations (dispatch MouseLeave (run drawing_session initial_state))
       = [DrawingAnnotation (JNum 1)
            [\<lparr> px = JNum 10, py = JNum 10 \<rparr>, \<lparr> px = JNum 20, py = JNum 25 \<rparr>]
            ''#FFFF00'' (JNum 2)]
   \<and> currentTool (run highlight_session initial_state) = ToolHighlight
   \<and> highlightInfo (run highlight_session initial_state)
       = Some \<lparr> info_start = \<lparr> px = JNum 10, py = JNum 10 \<rparr>,
                info_current = \<lparr> px = JNum 50, py = JNum 40 \<rparr> \<rparr>
   \<and> annotations (dispatch MouseLeave (run highlight_session initial_state))
       = [HighlightAnnotation (JNum 1) \<lparr> px = JNum 10, py = JNum 10 \<rparr>
            \<lparr> px = JNum 50, py = JNum 40 \<rparr> ''#FFFF00'']"
  using abort_is_gesture_end [of "run drawing_session initial_state"]
    abort_is_gesture_end [of "run highlight_session initial_state"
      "\<lparr> info_start = \<lparr> px = JNum 10, py = JNum 10 \<rparr>,
         info_current = \<lparr> px = JNum 50, py = JNum 40 \<rparr> \<rparr>"]
  by (simp add: drawing_session_state highlight_session_state)

lemma dispatch_keeps_page_one:
  assumes "\<forall>a \<in> set (annotations st). annotation_page a = JNum 1"
  shows "\<forall>a \<in> set (annotations (dispatch ev st)). annotation_page a = JNum 1"
  using assms
  by (cases ev)
     (auto simp: handleMouseDown_def handleMouseMove_def handleMouseUp_def
        handleModalSubmit_def updateOverlayDimensions_def Let_def
        split: option.splits tool.splits if_splits)

lemma run_keeps_page_one:
  assumes "\<forall>a \<in> set (annotations st). annotation_page a = JNum 1"
  shows "\<forall>a \<in> set (annotations (run evs st)). annotation_page a = JNum 1"
  using assms
proof (induction evs arbitrary: st)
  case Nil
  then show ?case by simp
next
  case (Cons ev evs)
  show ?case
    unfolding run.simps by (rule Cons.IH, rule dispatch_keeps_page_one, rule Cons.prems)
qed

text \<open>
  C10. After any sequence of events from the initial state (mouse gestures of every
  tool, confirmations and cancellations of the text modal, tool and colour changes,
  clear-all, resizes), every annotation in the committed sequence has page index 1.
\<close>

theorem committed_page_is_one:
  "a \<in> set (annotations (run evs initial_state)) \<Longrightarrow> annotation_page a = JNum 1"
  using run_keeps_page_one [of initial_state evs] by (simp add: initial_state_def)

theorem committed_page_is_one_witness:
  "TextAnnotation (JNum 1) \<lparr> px = JNum 5, py = JNum 5 \<rparr> ''note'' ''#FFFF00''
     \<in> set (annotations (run (drawing_session @ MouseUp # text_session) initial_state))
   \<and> annotations (run (drawing_session @ MouseUp # text_session) initial_state)
       = [DrawingAnnotation (JNum 1)
            [\<lparr> px = JNum 10, py = JNum 10 \<rparr>, \<lparr> px = JNum 20, py = JNum 25 \<rparr>]
            ''#FFFF00'' (JNum 2),
          TextAnnotation (JNum 1) \<lparr> px = JNum 5, py = JNum 5 \<rparr> ''note'' ''#FFFF00'']
   \<and> annotation_page (TextAnnotation (JNum 1) \<lparr> px = JNum 5, py = JNum 5 \<rparr> ''note'' ''#FFFF00'')
       = JNum 1"
proof -
  have annots: "annotations (run (drawing_session @ MouseUp # text_session) initial_state)
       = [DrawingAnnotation (JNum 1)
            [\<lparr> px = JNum 10, py = JNum 10 \<rparr>, \<lparr> px = JNum 20, py = JNum 25 \<rparr>]
            ''#FFFF00'' (JNum 2),
          TextAnnotation (JNum 1) \<lparr> px = JNum 5, py = JNum 5 \<rparr> ''note'' ''#FFFF00'']"
    by (simp add: drawing_session_def text_session_def initial_state_def sample_rect_def
        handleMouseDown_def handleMouseMove_def handleMouseUp_def handleModalSubmit_def
        event_point_def Let_def)
  have member: "TextAnnotation (JNum 1) \<lparr> px = JNum 5, py = JNum 5 \<rparr> ''note'' ''#FFFF00''
     \<in> set (annotations (run (drawing_session @ MouseUp # text_session) initial_state))"
    by (simp add: annots)
  show ?thesis
    using member annots committed_page_is_one [OF member] by simp
qed


end
